theory Spec2Isabelle
  imports Complex_Main "HOL-Library.Word" "HOL-Library.Multiset"
begin

section \<open>Grasp synthesis: mask-based scoring and boundary-fit pair filtering\<close>

text \<open>
  A shallow embedding of the two geometric pipelines of the repository:
  \<^verbatim>\<open>mask_based_algo_module/grasp_mask.py\<close> (class \<^verbatim>\<open>GraspMask\<close>) and
  \<^verbatim>\<open>top_surface_algo/scripts/pyefd.py\<close> (function \<^verbatim>\<open>get_grasp\<close>).
  Python exceptions are values of the type \<open>error\<close>, returned on the left of a sum.

  Floating-point numbers are IEEE doubles in the two computations whose outcome hangs
  on a rounded value: the depth normalisation, which truncates a rounded quotient, and
  the quotient handed to \<^verbatim>\<open>np.arccos\<close> by the pair filter, which is NaN outside
  \<open>[-1, 1]\<close>. There every operation rounds to the nearest double, and infinities and
  NaN are values. The other computations on floats (mask values, rotation matrices,
  distances between points, costs) are carried out on the reals.
\<close>

subsection \<open>Exceptions\<close>

datatype error =
    IndexError          \<comment> \<open>list or array index out of range\<close>
  | ValueError          \<comment> \<open>numpy: negative dimension, empty reduction, shape mismatch\<close>
  | NoGraspFoundError   \<comment> \<open>named by the specification only; no statement of the source raises it\<close>

definition bind_err :: "error + 'a \<Rightarrow> ('a \<Rightarrow> error + 'b) \<Rightarrow> error + 'b" where
  "bind_err m f = (case m of Inl e \<Rightarrow> Inl e | Inr x \<Rightarrow> f x)"

definition getitem :: "'a list \<Rightarrow> nat \<Rightarrow> error + 'a" where
  \<comment> \<open>\<^verbatim>\<open>xs[i]\<close> for a non-negative index\<close>
  "getitem xs i = (if i < length xs then Inr (xs ! i) else Inl IndexError)"

subsection \<open>IEEE binary64 arithmetic\<close>

text \<open>
  A \<^verbatim>\<open>float64\<close> is a finite double, an infinity or NaN. A finite double is given by
  the real number it denotes; the two zeros are not told apart.
\<close>

datatype float64 = Finite real | PlusInf | MinusInf | NaN

text \<open>
  The exponent of the binade of \<open>x\<close>: the greatest \<open>e\<close> from \<open>-1022\<close> to \<open>1023\<close> with
  \<open>2 powi e \<le> \<bar>x\<bar>\<close>, and \<open>-1022\<close> for the subnormal numbers and zero.
\<close>

definition binary_exponent :: "real \<Rightarrow> int" where
  "binary_exponent x = Max (set (- 1022 # filter (\<lambda>e. 2 powi e \<le> \<bar>x\<bar>) [- 1022 .. 1023]))"

definition round_half_even :: "real \<Rightarrow> int" where
  "round_half_even y =
     (let f = \<lfloor>y\<rfloor>; d = y - of_int f
      in if d < 1 / 2 then f else if 1 / 2 < d then f + 1 else if even f then f else f + 1)"

text \<open>
  Rounding to the nearest double, ties to even: the significand has 53 bits, so the
  doubles of the binade with exponent \<open>e\<close> are \<open>2 powi (e - 52)\<close> apart. A result of
  magnitude \<open>2 powi 1024\<close> or more overflows to an infinity.
\<close>

definition fl :: "real \<Rightarrow> float64" where
  "fl x =
     (let ulp = 2 powi (binary_exponent x - 52);
          r = of_int (round_half_even (x / ulp)) * ulp
      in if 2 powi 1024 \<le> r then PlusInf
         else if r \<le> - (2 powi 1024) then MinusInf
         else Finite r)"

text \<open>
  The operations of IEEE 754 on these values: the exact result rounded, with the
  standard's results on infinities and NaN. A division by zero takes the zero as
  positive; every zero divisor in the code modelled is a difference \<open>x - x\<close> or a
  product of norms, which is the positive zero.
\<close>

fun fadd :: "float64 \<Rightarrow> float64 \<Rightarrow> float64" where
  "fadd (Finite a) (Finite b) = fl (a + b)"
| "fadd NaN y = NaN"
| "fadd x NaN = NaN"
| "fadd PlusInf MinusInf = NaN"
| "fadd MinusInf PlusInf = NaN"
| "fadd PlusInf y = PlusInf"
| "fadd x PlusInf = PlusInf"
| "fadd MinusInf y = MinusInf"
| "fadd x MinusInf = MinusInf"

fun fneg :: "float64 \<Rightarrow> float64" where
  "fneg (Finite a) = Finite (- a)"
| "fneg PlusInf = MinusInf"
| "fneg MinusInf = PlusInf"
| "fneg NaN = NaN"

definition fsub :: "float64 \<Rightarrow> float64 \<Rightarrow> float64" where
  "fsub x y = fadd x (fneg y)"

fun fmul :: "float64 \<Rightarrow> float64 \<Rightarrow> float64" where
  "fmul (Finite a) (Finite b) = fl (a * b)"
| "fmul NaN y = NaN"
| "fmul x NaN = NaN"
| "fmul (Finite a) y = (if a = 0 then NaN else if 0 < a then y else fneg y)"
| "fmul x (Finite b) = (if b = 0 then NaN else if 0 < b then x else fneg x)"
| "fmul x y = (if x = y then PlusInf else MinusInf)"

fun fdiv :: "float64 \<Rightarrow> float64 \<Rightarrow> float64" where
  "fdiv (Finite a) (Finite b) =
     (if b = 0 then (if a = 0 then NaN else if 0 < a then PlusInf else MinusInf)
      else fl (a / b))"
| "fdiv NaN y = NaN"
| "fdiv x NaN = NaN"
| "fdiv (Finite a) y = Finite 0"
| "fdiv x (Finite b) = (if 0 \<le> b then x else fneg x)"
| "fdiv x y = NaN"

fun fsqrt :: "float64 \<Rightarrow> float64" where
  "fsqrt (Finite a) = (if a < 0 then NaN else fl (sqrt a))"
| "fsqrt PlusInf = PlusInf"
| "fsqrt x = NaN"

subsection \<open>Python's \<^verbatim>\<open>sorted\<close>\<close>

text \<open>
  \<^verbatim>\<open>sorted(xs, key=k)\<close> is a stable ascending sort by key. With \<^verbatim>\<open>reverse=True\<close>
  CPython reverses the list, sorts it stably and reverses the result, which keeps the
  original order of elements with equal keys.
\<close>

definition sorted_py :: "('a \<Rightarrow> 'k::linorder) \<Rightarrow> 'a list \<Rightarrow> 'a list" where
  "sorted_py key xs = sort_key key xs"

definition sorted_py_reverse :: "('a \<Rightarrow> 'k::linorder) \<Rightarrow> 'a list \<Rightarrow> 'a list" where
  "sorted_py_reverse key xs = rev (sort_key key (rev xs))"

subsection \<open>\<^verbatim>\<open>GraspMask\<close>: modes, configuration, angle list\<close>

datatype GraspMaskMode = ALL_ROTATIONS | MAJOR_COMPONENT_IMAGE | MAJOR_COMPONENT_MASK

text \<open>
  \<^verbatim>\<open>np.arange(start, stop, step).tolist()\<close> and \<^verbatim>\<open>range(start, stop, step)\<close> on
  integers with a positive step.
\<close>

definition arange :: "int \<Rightarrow> int \<Rightarrow> int \<Rightarrow> int list" where
  "arange start stop step =
     map (\<lambda>k. start + step * int k) [0 ..< nat ((stop - start + step - 1) div step)]"

text \<open>
  The part of \<^verbatim>\<open>GraspMask.get_grasp\<close> (lines 93 to 98) that acts on \<^verbatim>\<open>self.angles\<close>.
  The major component angle comes from the contour's principal axis, computed by
  OpenCV and numpy routines; it is a parameter here.
\<close>

definition update_angles :: "GraspMaskMode \<Rightarrow> real list \<Rightarrow> real \<Rightarrow> real list" where
  "update_angles mode angles major_component_angle =
     (case mode of
        ALL_ROTATIONS \<Rightarrow> angles @ [major_component_angle]
      | MAJOR_COMPONENT_IMAGE \<Rightarrow> [major_component_angle]
      | MAJOR_COMPONENT_MASK \<Rightarrow> [0])"

text \<open>The angle list as \<^verbatim>\<open>__init__\<close> builds it.\<close>

definition init_angles :: "real list" where
  "init_angles = map real_of_int (arange (- 90) 90 5)"

subsection \<open>Grasp ranking\<close>

text \<open>
  A candidate is the tuple \<^verbatim>\<open>(score, x, y, width, height, angle)\<close> of line 119. The score
  is read from the output of \<^verbatim>\<open>cv2.filter2D\<close> on an 8-bit image with the depth of the
  input kept, so it is an unsigned byte.
\<close>

type_synonym grasp = "8 word \<times> int \<times> int \<times> nat \<times> nat \<times> real"

definition score :: "grasp \<Rightarrow> 8 word" where
  "score g = fst g"

definition rank_grasps :: "grasp list \<Rightarrow> grasp list" where
  \<comment> \<open>line 122: \<^verbatim>\<open>sorted(best_grasps, key=lambda x: x[0], reverse=True)\<close>\<close>
  "rank_grasps best_grasps = sorted_py_reverse score best_grasps"

subsection \<open>Mask bank\<close>

text \<open>\<^verbatim>\<open>int(x)\<close> on a float truncates towards zero.\<close>

definition py_int :: "real \<Rightarrow> int" where
  "py_int x = (if 0 \<le> x then \<lfloor>x\<rfloor> else \<lceil>x\<rceil>)"

text \<open>
  A two-dimensional numpy array: its shape \<^verbatim>\<open>(rows, columns)\<close> and its rows. The shape
  is kept apart from the rows, as numpy does: an array with no row still has a width.
\<close>

record ndarray =
  shape :: "nat \<times> nat"
  elems :: "real list list"

definition np_ones :: "int \<times> int \<Rightarrow> error + ndarray" where
  \<comment> \<open>\<^verbatim>\<open>np.ones((h, w))\<close>; numpy refuses a negative dimension\<close>
  "np_ones s =
     (if fst s < 0 \<or> snd s < 0 then Inl ValueError
      else Inr \<lparr>shape = (nat (fst s), nat (snd s)),
                elems = replicate (nat (fst s)) (replicate (nat (snd s)) 1)\<rparr>)"

definition np_mul :: "ndarray \<Rightarrow> real \<Rightarrow> ndarray" where
  "np_mul a c = a\<lparr>elems := map (map (\<lambda>v. v * c)) (elems a)\<rparr>"

definition np_div :: "ndarray \<Rightarrow> real \<Rightarrow> ndarray" where
  "np_div a c = a\<lparr>elems := map (map (\<lambda>v. v / c)) (elems a)\<rparr>"

definition np_concatenate0 :: "ndarray list \<Rightarrow> error + ndarray" where
  \<comment> \<open>\<^verbatim>\<open>np.concatenate(arrays, axis=0)\<close>: the arrays must agree on the number of columns\<close>
  "np_concatenate0 arrays =
     (case arrays of
        [] \<Rightarrow> Inl ValueError
      | a # rest \<Rightarrow>
          if list_all (\<lambda>b. snd (shape b) = snd (shape a)) rest
          then Inr \<lparr>shape = (sum_list (map (\<lambda>b. fst (shape b)) arrays), snd (shape a)),
                    elems = concat (map elems arrays)\<rparr>
          else Inl ValueError)"

text \<open>
  One of the five bands of lines 45 to 49:
  \<^verbatim>\<open>np.ones((int(size/5), int(3*size/5))) * v\<close>.
\<close>

definition band :: "real \<Rightarrow> real \<Rightarrow> error + ndarray" where
  "band msize v =
     bind_err (np_ones (py_int (msize / 5), py_int (3 * msize / 5))) (\<lambda>ones. Inr (np_mul ones v))"

text \<open>Line 51: the five bands stacked, divided by \<^verbatim>\<open>(3/2) * size * size\<close>.\<close>

definition stacked_mask :: "real \<Rightarrow> error + ndarray" where
  "stacked_mask msize =
     bind_err (band msize (- 1)) (\<lambda>mask1.
     bind_err (band msize 0) (\<lambda>mask2.
     bind_err (band msize 1) (\<lambda>mask3.
     bind_err (band msize 0) (\<lambda>mask4.
     bind_err (band msize (- 1)) (\<lambda>mask5.
     bind_err (np_concatenate0 [mask1, mask2, mask3, mask4, mask5]) (\<lambda>m.
       Inr (np_div m ((3 / 2) * msize * msize))))))))"

text \<open>The body of the loop of \<^verbatim>\<open>generate_masks\<close> for the index \<open>i\<close> (lines 45 to 52).\<close>

definition build_mask :: "real list \<Rightarrow> real list \<Rightarrow> nat \<Rightarrow> error + ndarray" where
  "build_mask mask_sizes weights i =
     bind_err (getitem mask_sizes i) (\<lambda>msize.
     bind_err (stacked_mask msize) (\<lambda>mask.
     bind_err (getitem weights i) (\<lambda>w.
       Inr (np_mul mask w))))"

fun generate_masks_loop ::
  "real list \<Rightarrow> real list \<Rightarrow> nat list \<Rightarrow> ndarray list \<Rightarrow> error + ndarray list" where
  "generate_masks_loop mask_sizes weights [] masks = Inr masks"
| "generate_masks_loop mask_sizes weights (i # is) masks =
     bind_err (build_mask mask_sizes weights i) (\<lambda>mask.
       generate_masks_loop mask_sizes weights is (masks @ [mask]))"

definition generate_masks :: "real list \<Rightarrow> real list \<Rightarrow> error + ndarray list" where
  \<comment> \<open>\<^verbatim>\<open>for i in range(len(self.mask_sizes))\<close>\<close>
  "generate_masks mask_sizes weights =
     generate_masks_loop mask_sizes weights [0 ..< length mask_sizes] []"

text \<open>
  The object's fields that the scoring reads or writes, and \<^verbatim>\<open>__init__\<close>. The sizes are
  \<^verbatim>\<open>[1024/i for i in range(4, 20, 4)]\<close> with Python 3's true division.
\<close>

record GraspMask =
  top_k :: nat
  grasp_mode :: GraspMaskMode
  angles :: "real list"
  mask_sizes :: "real list"
  weights :: "real list"
  masks :: "ndarray list"

definition init_mask_sizes :: "real list" where
  "init_mask_sizes = map (\<lambda>i. 1024 / real_of_int i) (arange 4 20 4)"

definition init_weights :: "real list" where
  "init_weights = [1, 2, 3, 4, 5]"

definition GraspMask_init :: "error + GraspMask" where
  "GraspMask_init =
     bind_err (generate_masks init_mask_sizes init_weights) (\<lambda>ms.
       Inr \<lparr>top_k = 1, grasp_mode = ALL_ROTATIONS, angles = init_angles,
            mask_sizes = init_mask_sizes, weights = init_weights, masks = ms\<rparr>)"

text \<open>
  The effect on the object of a call of \<^verbatim>\<open>get_grasp\<close> that reaches line 93 (a contour
  was found in the frame): only \<^verbatim>\<open>self.angles\<close> is assigned, at lines 93 to 98.
\<close>

definition get_grasp_self :: "GraspMask \<Rightarrow> real \<Rightarrow> GraspMask" where
  "get_grasp_self self major_component_angle =
     self\<lparr>angles := update_angles (grasp_mode self) (angles self) major_component_angle\<rparr>"

subsection \<open>Depth normalisation\<close>

type_synonym vec2 = "real \<times> real"

text \<open>
  \<^verbatim>\<open>np.min\<close> and \<^verbatim>\<open>np.max\<close> over all samples of an image, given as its list of rows.
  numpy raises \<^verbatim>\<open>ValueError\<close> on an array with no element.
\<close>

definition np_min :: "('a::linorder) list list \<Rightarrow> error + 'a" where
  "np_min a = (if concat a = [] then Inl ValueError else Inr (Min (set (concat a))))"

definition np_max :: "('a::linorder) list list \<Rightarrow> error + 'a" where
  "np_max a = (if concat a = [] then Inl ValueError else Inr (Max (set (concat a))))"

text \<open>
  \<^verbatim>\<open>np.uint8(x)\<close> on a double drops the fractional part. For NaN, an infinity or a
  value that does not fit a byte after truncation the underlying C conversion is
  undefined and numpy's result depends on the platform: the model gives no pixel value
  there.
\<close>

definition np_uint8 :: "float64 \<Rightarrow> 8 word option" where
  "np_uint8 x =
     (case x of
        Finite v \<Rightarrow> if - 1 < v \<and> v < 256 then Some (word_of_int (py_int v)) else None
      | _ \<Rightarrow> None)"

text \<open>
  The depth frame is a numpy array, and its dtype decides the arithmetic of line 68.
  Two dtypes are modelled: \<^verbatim>\<open>float64\<close>, with samples that are finite doubles, and
  \<^verbatim>\<open>uint16\<close>, the encoding of depth in millimetres.
\<close>

datatype frame = Float64Frame "real list list" | UInt16Frame "16 word list list"

text \<open>
  Lines 68 and 69 on a \<^verbatim>\<open>float64\<close> frame: the subtractions, the product and the
  quotient are each rounded to a double.
\<close>

definition normalize_float64 :: "real list list \<Rightarrow> error + 8 word option list list" where
  "normalize_float64 depth_image =
     bind_err (np_min depth_image) (\<lambda>lo.
     bind_err (np_max depth_image) (\<lambda>hi.
     bind_err (np_min depth_image) (\<lambda>lo'.
       Inr (map (map (\<lambda>d.
              np_uint8 (fdiv (fmul (fsub (Finite d) (Finite lo)) (Finite 255))
                             (fsub (Finite hi) (Finite lo')))))
            depth_image))))"

text \<open>
  Lines 68 and 69 on a \<^verbatim>\<open>uint16\<close> frame: the difference and its product with 255
  stay \<^verbatim>\<open>uint16\<close> and wrap around modulo 65536; the division converts both sides to
  doubles.
\<close>

definition normalize_uint16 :: "16 word list list \<Rightarrow> error + 8 word option list list" where
  "normalize_uint16 depth_image =
     bind_err (np_min depth_image) (\<lambda>lo.
     bind_err (np_max depth_image) (\<lambda>hi.
     bind_err (np_min depth_image) (\<lambda>lo'.
       Inr (map (map (\<lambda>d.
              np_uint8 (fdiv (Finite (real (unat ((d - lo) * 255))))
                             (Finite (real (unat (hi - lo')))))))
            depth_image))))"

definition normalize_depth :: "frame \<Rightarrow> error + 8 word option list list" where
  "normalize_depth depth_image =
     (case depth_image of
        Float64Frame a \<Rightarrow> normalize_float64 a
      | UInt16Frame a \<Rightarrow> normalize_uint16 a)"

subsection \<open>Rotation about the contour centroid\<close>

text \<open>
  \<^verbatim>\<open>cv2.getRotationMatrix2D(center, angle, scale)\<close> is an OpenCV routine; the matrix is
  the one its documentation gives, with the angle in degrees:
  \<^verbatim>\<open>[[a, b, (1 - a) * cx - b * cy], [-b, a, b * cx + (1 - a) * cy]]\<close> where
  \<^verbatim>\<open>a = scale * cos(angle)\<close> and \<^verbatim>\<open>b = scale * sin(angle)\<close>.
\<close>

type_synonym affine = "(real \<times> real \<times> real) \<times> (real \<times> real \<times> real)"

definition getRotationMatrix2D :: "vec2 \<Rightarrow> real \<Rightarrow> real \<Rightarrow> affine" where
  "getRotationMatrix2D center angle scale =
     (let alpha = scale * cos (angle * pi / 180);
          beta = scale * sin (angle * pi / 180)
      in ((alpha, beta, (1 - alpha) * fst center - beta * snd center),
          (- beta, alpha, beta * fst center + (1 - alpha) * snd center)))"

text \<open>Line 143: the product of a 2 by 3 matrix with \<^verbatim>\<open>[x, y, 1]\<close>.\<close>

definition affine_apply :: "affine \<Rightarrow> vec2 \<Rightarrow> vec2" where
  "affine_apply M p =
     (case M of ((a, b, c), (d, e, f)) \<Rightarrow>
        (a * fst p + b * snd p + c * 1, d * fst p + e * snd p + f * 1))"

subsection \<open>Boundary-fit pipeline: preparing the contour\<close>

text \<open>Line 194: the Euclidean distances between consecutive points of the contour.\<close>

definition point_dist :: "vec2 \<Rightarrow> vec2 \<Rightarrow> real" where
  "point_dist p q = sqrt ((fst q - fst p)\<^sup>2 + (snd q - snd p)\<^sup>2)"

definition consecutive_distances :: "vec2 list \<Rightarrow> real list" where
  "consecutive_distances contour = map2 point_dist contour (tl contour)"

text \<open>\<^verbatim>\<open>np.where(xs > c)[0]\<close>: the indices of the entries above \<open>c\<close>, in increasing order.\<close>

definition np_where_gt :: "real list \<Rightarrow> real \<Rightarrow> nat list" where
  "np_where_gt xs c = filter (\<lambda>i. xs ! i > c) [0 ..< length xs]"

text \<open>\<^verbatim>\<open>xs[a:b]\<close> for indices that are not negative.\<close>

definition py_slice :: "'a list \<Rightarrow> nat \<Rightarrow> nat \<Rightarrow> 'a list" where
  "py_slice xs a b = drop a (take b xs)"

text \<open>Lines 195 to 204.\<close>

definition subarrays :: "vec2 list \<Rightarrow> vec2 list list" where
  "subarrays largest_contour =
     (let split_indices = np_where_gt (consecutive_distances largest_contour) 0.03
      in if length split_indices = 0 then [largest_contour]
         else let split_indices = [0] @ split_indices @ [length largest_contour - 1]
              in map (\<lambda>i. py_slice largest_contour (split_indices ! i) (split_indices ! (i + 1) + 1))
                   [0 ..< length split_indices - 1])"

text \<open>\<^verbatim>\<open>max(xs, key=k)\<close> returns the first of the elements with the greatest key.\<close>

fun py_max_from :: "('a \<Rightarrow> nat) \<Rightarrow> 'a \<Rightarrow> 'a list \<Rightarrow> 'a" where
  "py_max_from key best [] = best"
| "py_max_from key best (x # xs) = py_max_from key (if key best < key x then x else best) xs"

definition py_max :: "('a \<Rightarrow> nat) \<Rightarrow> 'a list \<Rightarrow> error + 'a" where
  "py_max key xs = (case xs of [] \<Rightarrow> Inl ValueError | x # rest \<Rightarrow> Inr (py_max_from key x rest))"

definition outer_contour :: "vec2 list \<Rightarrow> error + vec2 list" where
  \<comment> \<open>line 206\<close>
  "outer_contour largest_contour = py_max length (subarrays largest_contour)"

text \<open>Lines 208 to 213: the midpoint of every two consecutive points is inserted.\<close>

definition mid :: "vec2 \<Rightarrow> vec2 \<Rightarrow> vec2" where
  "mid p q = ((fst p + fst q) / 2, (snd p + snd q) / 2)"

fun mid_and_next :: "vec2 list \<Rightarrow> vec2 list" where
  "mid_and_next (p # q # rest) = mid p q # q # mid_and_next (q # rest)"
| "mid_and_next [p] = []"
| "mid_and_next [] = []"

definition int_contour :: "vec2 list \<Rightarrow> error + vec2 list" where
  "int_contour outer =
     (case outer of [] \<Rightarrow> Inl IndexError | p # rest \<Rightarrow> Inr (p # mid_and_next outer))"

text \<open>The point sequence handed to \<^verbatim>\<open>get_extremum_points\<close> at line 215.\<close>

definition fitted_contour :: "vec2 list \<Rightarrow> error + vec2 list" where
  "fitted_contour largest_contour = bind_err (outer_contour largest_contour) int_contour"

text \<open>
  For comparison, a splitting at the gaps: the sequence is cut between every two
  consecutive points that are more than 0.03 apart, and every point lies in one piece.
\<close>

fun split_at_gaps :: "vec2 list \<Rightarrow> vec2 list list" where
  "split_at_gaps [] = [[]]"
| "split_at_gaps [p] = [[p]]"
| "split_at_gaps (p # q # rest) =
     (if point_dist p q > 0.03 then [p] # split_at_gaps (q # rest)
      else (case split_at_gaps (q # rest) of
              g # gs \<Rightarrow> (p # g) # gs
            | [] \<Rightarrow> [[p]]))"

subsection \<open>Boundary-fit pipeline: the pair filter\<close>

text \<open>\<^verbatim>\<open>itertools.combinations(xs, 2)\<close>, line 182.\<close>

fun combinations2 :: "'a list \<Rightarrow> ('a \<times> 'a) list" where
  "combinations2 [] = []"
| "combinations2 (x # xs) = map (Pair x) xs @ combinations2 xs"

definition dot :: "vec2 \<Rightarrow> vec2 \<Rightarrow> real" where
  "dot u v = fst u * fst v + snd u * snd v"

definition norm2 :: "vec2 \<Rightarrow> real" where
  \<comment> \<open>\<^verbatim>\<open>np.linalg.norm\<close> of a vector with two entries, on the reals\<close>
  "norm2 u = sqrt ((fst u)\<^sup>2 + (snd u)\<^sup>2)"

definition np_mean :: "real list \<Rightarrow> real" where
  "np_mean xs = sum_list xs / real (length xs)"

text \<open>
  Line 220 in doubles. \<^verbatim>\<open>np.dot\<close> of two vectors with two entries is the rounded sum
  of the two rounded products, and \<^verbatim>\<open>np.linalg.norm\<close> is the rounded square root of
  the dot product of the vector with itself. The quotient of the dot product by the
  rounded product of the norms goes to \<^verbatim>\<open>np.arccos\<close> as it is: the source applies no
  clamp.
\<close>

definition dot_f64 :: "vec2 \<Rightarrow> vec2 \<Rightarrow> float64" where
  "dot_f64 u v =
     fadd (fmul (Finite (fst u)) (Finite (fst v))) (fmul (Finite (snd u)) (Finite (snd v)))"

definition norm_f64 :: "vec2 \<Rightarrow> float64" where
  "norm_f64 u = fsqrt (dot_f64 u u)"

definition arccos_arg :: "vec2 \<Rightarrow> vec2 \<Rightarrow> float64" where
  "arccos_arg n1 n2 = fdiv (dot_f64 n1 n2) (fmul (norm_f64 n1) (norm_f64 n2))"

text \<open>
  \<^verbatim>\<open>np.arccos\<close> returns NaN for NaN and for every argument outside \<open>[-1, 1]\<close>; \<open>None\<close>
  stands for NaN. Within the domain the result is taken to be the exact inverse cosine.
\<close>

definition np_arccos :: "float64 \<Rightarrow> real option" where
  "np_arccos q =
     (case q of
        Finite v \<Rightarrow> if - 1 \<le> v \<and> v \<le> 1 then Some (arccos v) else None
      | _ \<Rightarrow> None)"

text \<open>The value the source names \<^verbatim>\<open>angle\<close>: a number, or NaN.\<close>

definition angle :: "vec2 \<Rightarrow> vec2 \<Rightarrow> real option" where
  "angle n1 n2 = map_option (\<lambda>a. a * 180 / 3.14) (np_arccos (arccos_arg n1 n2))"

text \<open>The comparison \<^verbatim>\<open>a > t\<close>, which is false when \<open>a\<close> is NaN.\<close>

definition exceeds :: "real option \<Rightarrow> real \<Rightarrow> bool" where
  "exceeds a t = (case a of None \<Rightarrow> False | Some v \<Rightarrow> t < v)"

text \<open>
  The body of the loop over the combinations, lines 219 to 240: the entry appended to
  \<^verbatim>\<open>grasps\<close> for the combination, if any. The moment of line 234 is computed and never
  read.
\<close>

type_synonym grasp_entry = "(nat \<times> nat) \<times> real"

definition grasp_of :: "real list \<Rightarrow> real list \<Rightarrow> vec2 list \<Rightarrow> nat \<times> nat \<Rightarrow> error + grasp_entry option" where
  "grasp_of xt yt outward_normals combination =
     (case combination of (idx1, idx2) \<Rightarrow>
        bind_err (getitem outward_normals idx1) (\<lambda>n1.
        bind_err (getitem outward_normals idx2) (\<lambda>n2.
          if exceeds (angle n1 n2) 120 then
            let center = (np_mean xt, np_mean yt) in
            bind_err (getitem xt idx1) (\<lambda>x1.
            bind_err (getitem yt idx1) (\<lambda>y1.
            bind_err (getitem xt idx2) (\<lambda>x2.
            bind_err (getitem yt idx2) (\<lambda>y2.
              let pt1 = (x1 - fst center, y1 - snd center);
                  pt2 = (x2 - fst center, y2 - snd center);
                  pt_dist = norm2 pt1 + norm2 pt2;
                  dist = norm2 (fst pt1 - fst pt2, snd pt1 - snd pt2)
              in Inr (if dist < 0.08 then Some ((idx1, idx2), pt_dist + dist) else None)))))
          else Inr None)))"

fun collect_grasps ::
  "real list \<Rightarrow> real list \<Rightarrow> vec2 list \<Rightarrow> (nat \<times> nat) list \<Rightarrow> grasp_entry list \<Rightarrow> error + grasp_entry list" where
  "collect_grasps xt yt outward_normals [] grasps = Inr grasps"
| "collect_grasps xt yt outward_normals (combination # rest) grasps =
     bind_err (grasp_of xt yt outward_normals combination) (\<lambda>entry.
       collect_grasps xt yt outward_normals rest
         (case entry of None \<Rightarrow> grasps | Some g \<Rightarrow> grasps @ [g]))"

text \<open>Lines 244 to 246: the first entry of the list sorted by cost.\<close>

definition best_grasp ::
  "real list \<Rightarrow> real list \<Rightarrow> vec2 list \<Rightarrow> (nat \<times> nat) list \<Rightarrow> error + grasp_entry" where
  "best_grasp xt yt outward_normals combinations_list =
     bind_err (collect_grasps xt yt outward_normals combinations_list []) (\<lambda>grasps.
       getitem (sorted_py snd grasps) 0)"

text \<open>Lines 217 to 270 of \<^verbatim>\<open>get_grasp\<close>: the two points of the best pair.\<close>

definition get_grasp_pair ::
  "real list \<Rightarrow> real list \<Rightarrow> vec2 list \<Rightarrow> (nat \<times> nat) list \<Rightarrow> error + vec2 \<times> vec2" where
  "get_grasp_pair xt yt outward_normals combinations_list =
     bind_err (best_grasp xt yt outward_normals combinations_list) (\<lambda>best.
     bind_err (getitem xt (fst (fst best))) (\<lambda>x1.
     bind_err (getitem yt (fst (fst best))) (\<lambda>y1.
     bind_err (getitem xt (snd (fst best))) (\<lambda>x2.
     bind_err (getitem yt (snd (fst best))) (\<lambda>y2.
       Inr ((x1, y1), (x2, y2)))))))"

text \<open>
  Vocabulary for the properties of the filter: a combination whose indices are within
  the sampled curve and the normals, the distance between its two points (the centre
  cancels in \<^verbatim>\<open>pt1 - pt2\<close>), its cost, and the two tests of lines 223 and 239.
\<close>

definition in_range :: "real list \<Rightarrow> real list \<Rightarrow> vec2 list \<Rightarrow> nat \<times> nat \<Rightarrow> bool" where
  "in_range xt yt outward_normals c =
     (fst c < length outward_normals \<and> snd c < length outward_normals
      \<and> fst c < length xt \<and> fst c < length yt \<and> snd c < length xt \<and> snd c < length yt)"

definition pair_distance :: "real list \<Rightarrow> real list \<Rightarrow> nat \<times> nat \<Rightarrow> real" where
  "pair_distance xt yt c = norm2 (xt ! fst c - xt ! snd c, yt ! fst c - yt ! snd c)"

definition pair_cost :: "real list \<Rightarrow> real list \<Rightarrow> nat \<times> nat \<Rightarrow> real" where
  "pair_cost xt yt c =
     norm2 (xt ! fst c - np_mean xt, yt ! fst c - np_mean yt)
     + norm2 (xt ! snd c - np_mean xt, yt ! snd c - np_mean yt)
     + pair_distance xt yt c"

definition accepted :: "real list \<Rightarrow> real list \<Rightarrow> vec2 list \<Rightarrow> nat \<times> nat \<Rightarrow> bool" where
  "accepted xt yt outward_normals c =
     (exceeds (angle (outward_normals ! fst c) (outward_normals ! snd c)) 120
      \<and> pair_distance xt yt c < 0.08)"

text \<open>
  For comparison, the angle between two vectors in degrees, on the reals and with the
  exact factor \<open>180 / pi\<close>.
\<close>

definition angle_degrees :: "vec2 \<Rightarrow> vec2 \<Rightarrow> real" where
  "angle_degrees n1 n2 = arccos (dot n1 n2 / (norm2 n1 * norm2 n2)) * 180 / pi"

section \<open>Properties\<close>

subsection \<open>Error plumbing\<close>

lemma bind_err_Inr_iff: "bind_err m f = Inr y \<longleftrightarrow> (\<exists>x. m = Inr x \<and> f x = Inr y)"
  by (cases m) (simp_all add: bind_err_def)

lemma bind_err_Inr [simp]: "bind_err (Inr x) f = f x"
  by (simp add: bind_err_def)

lemma bind_err_Inl [simp]: "bind_err (Inl e) f = Inl e"
  by (simp add: bind_err_def)

subsection \<open>Rounding to a double\<close>

lemma round_half_even_near:
  assumes "of_int m - 1 / 2 < y" and "y < of_int m + 1 / 2"
  shows "round_half_even y = m"
proof (cases "of_int m \<le> y")
  case True
  with assms have "\<lfloor>y\<rfloor> = m" by (intro floor_unique) simp_all
  with assms show ?thesis by (simp add: round_half_even_def Let_def)
next
  case False
  with assms have "\<lfloor>y\<rfloor> = m - 1" by (intro floor_unique) simp_all
  with assms False show ?thesis by (simp add: round_half_even_def Let_def)
qed

lemma binary_exponent_set:
  "set (- 1022 # filter P [- 1022 .. 1023]) = insert (- 1022) {e. - 1022 \<le> e \<and> e \<le> 1023 \<and> P e}"
  by (simp only: list.set set_filter set_upto atLeastAtMost_iff conj_assoc)

lemma binary_exponent_eqI:
  assumes "- 1022 \<le> e" "e \<le> 1023" "2 powi e \<le> \<bar>x\<bar>" "\<bar>x\<bar> < 2 powi (e + 1)"
  shows "binary_exponent x = e"
  unfolding binary_exponent_def binary_exponent_set
proof (rule Max_eqI)
  have "{e. - 1022 \<le> e \<and> e \<le> 1023 \<and> 2 powi e \<le> \<bar>x\<bar>} \<subseteq> {- 1022 .. 1023}"
    by (simp only: subset_iff mem_Collect_eq atLeastAtMost_iff) blast
  then have "finite {e. - 1022 \<le> e \<and> e \<le> 1023 \<and> 2 powi e \<le> \<bar>x\<bar>}"
    by (rule finite_subset) (rule finite_atLeastAtMost_int)
  then show "finite (insert (- 1022) {e. - 1022 \<le> e \<and> e \<le> 1023 \<and> 2 powi e \<le> \<bar>x\<bar>})"
    by (rule finite.insertI)
  show "e \<in> insert (- 1022) {e. - 1022 \<le> e \<and> e \<le> 1023 \<and> 2 powi e \<le> \<bar>x\<bar>}"
    using assms by simp
  fix y assume "y \<in> insert (- 1022) {e. - 1022 \<le> e \<and> e \<le> 1023 \<and> 2 powi e \<le> \<bar>x\<bar>}"
  then consider "y = - 1022" | "(2::real) powi y \<le> \<bar>x\<bar>" by auto
  then show "y \<le> e"
  proof cases
    case 1
    with assms(1) show ?thesis by simp
  next
    case 2
    with assms(4) have lt: "(2::real) powi y < 2 powi (e + 1)" by linarith
    show ?thesis
    proof (rule ccontr)
      assume "\<not> y \<le> e"
      then have "e + 1 \<le> y" by simp
      then have "(2::real) powi (e + 1) \<le> 2 powi y"
        by (intro power_int_increasing) simp_all
      with lt show False by simp
    qed
  qed
qed

lemma binary_exponent_small:
  assumes "\<bar>x\<bar> < 2 powi (- 1022)"
  shows "binary_exponent x = - 1022"
proof -
  have "\<not> 2 powi e \<le> \<bar>x\<bar>" if "- 1022 \<le> e" for e :: int
  proof -
    from that have "(2::real) powi (- 1022) \<le> 2 powi e"
      by (intro power_int_increasing) simp_all
    with assms show ?thesis by linarith
  qed
  then have "{e. - 1022 \<le> e \<and> e \<le> 1023 \<and> 2 powi e \<le> \<bar>x\<bar>} = {}"
    by blast
  then show ?thesis
    by (simp only: binary_exponent_def binary_exponent_set Max_singleton)
qed

text \<open>
  The rounding of a number in the binade with exponent \<open>e\<close> that lies less than half a
  unit in the last place from the double with significand \<open>m\<close>.
\<close>

lemma fl_near:
  assumes "- 1022 \<le> e" "e \<le> 1023" "2 powi e \<le> \<bar>x\<bar>" "\<bar>x\<bar> < 2 powi (e + 1)"
    and "of_int m - 1 / 2 < x / 2 powi (e - 52)" "x / 2 powi (e - 52) < of_int m + 1 / 2"
    and "\<bar>of_int m * 2 powi (e - 52)\<bar> < (2::real) powi 1024"
  shows "fl x = Finite (of_int m * 2 powi (e - 52))"
proof -
  have e: "binary_exponent x = e" using assms(1-4) by (rule binary_exponent_eqI)
  have m: "round_half_even (x / 2 powi (e - 52)) = m"
    using assms(5,6) by (rule round_half_even_near)
  from assms(7) have "\<not> 2 powi 1024 \<le> of_int m * (2::real) powi (e - 52)"
    "\<not> of_int m * (2::real) powi (e - 52) \<le> - (2 powi 1024)"
    by linarith+
  then show ?thesis
    by (simp only: fl_def e m Let_def if_False)
qed

lemma fl_0: "fl 0 = Finite 0"
proof -
  have "binary_exponent 0 = - 1022" by (rule binary_exponent_small) simp
  then show ?thesis
    by (simp add: fl_def round_half_even_def)
qed

lemma fl_1: "fl 1 = Finite 1"
  using fl_near [of 0 1 4503599627370496] by simp

lemma fl_minus_half: "fl (- (1 / 2)) = Finite (- (1 / 2))"
  using fl_near [of "- 1" "- (1 / 2)" "- 4503599627370496"] by simp

lemma fl_quarter: "fl (1 / 4) = Finite (1 / 4)"
  using fl_near [of "- 2" "1 / 4" 4503599627370496] by simp

lemma fl_three_quarters: "fl (3 / 4) = Finite (3 / 4)"
  using fl_near [of "- 1" "3 / 4" 6755399441055744] by simp

subsection \<open>Mask bank\<close>

lemma shape_np_mul [simp]: "shape (np_mul a c) = shape a"
  by (simp add: np_mul_def)

lemma shape_np_div [simp]: "shape (np_div a c) = shape a"
  by (simp add: np_div_def)

lemma nat_py_int: "0 \<le> py_int x \<Longrightarrow> nat (py_int x) = nat \<lfloor>x\<rfloor>"
proof (cases "0 \<le> x")
  case True
  then show ?thesis by (simp add: py_int_def)
next
  case False
  assume "0 \<le> py_int x"
  with False have "\<lceil>x\<rceil> = 0" "\<lfloor>x\<rfloor> \<le> 0"
    by (simp_all add: py_int_def order_antisym less_imp_le)
  with False show ?thesis by (simp add: py_int_def)
qed

lemma band_Inr:
  "band msize v = Inr b \<Longrightarrow> shape b = (nat \<lfloor>msize / 5\<rfloor>, nat \<lfloor>3 * msize / 5\<rfloor>)"
  by (auto simp: band_def np_ones_def nat_py_int split: if_splits)

lemma band_total: "0 \<le> msize \<Longrightarrow> \<exists>b. band msize v = Inr b"
  by (simp add: band_def np_ones_def py_int_def not_less)

lemma stacked_mask_shape:
  "stacked_mask msize = Inr m \<Longrightarrow> shape m = (5 * nat \<lfloor>msize / 5\<rfloor>, nat \<lfloor>3 * msize / 5\<rfloor>)"
  by (auto simp: stacked_mask_def bind_err_Inr_iff np_concatenate0_def dest!: band_Inr split: if_splits)

lemma stacked_mask_total: "0 \<le> msize \<Longrightarrow> \<exists>m. stacked_mask msize = Inr m"
proof -
  assume "0 \<le> msize"
  then obtain b1 b2 b3 where b: "band msize (- 1) = Inr b1" "band msize 0 = Inr b2" "band msize 1 = Inr b3"
    using band_total by meson
  from b have "snd (shape b2) = snd (shape b1)" "snd (shape b3) = snd (shape b1)"
    by (simp_all add: band_Inr)
  with b show ?thesis
    by (simp add: stacked_mask_def np_concatenate0_def)
qed

lemma generate_masks_loop_Inr_iff:
  "generate_masks_loop S W is acc = Inr ms \<longleftrightarrow>
     (\<exists>bs. ms = acc @ bs \<and> list_all2 (\<lambda>i b. build_mask S W i = Inr b) is bs)"
proof (induction "is" arbitrary: acc)
  case Nil
  then show ?case by auto
next
  case (Cons i "is")
  show ?case
    by (auto simp: bind_err_Inr_iff Cons.IH list_all2_Cons1)
qed

lemma generate_masks_Inr_iff:
  "generate_masks S W = Inr ms \<longleftrightarrow>
     length ms = length S \<and> (\<forall>i<length S. build_mask S W i = Inr (ms ! i))"
  by (auto simp: generate_masks_def generate_masks_loop_Inr_iff list_all2_conv_all_nth)

lemma generate_masks_loop_Inl:
  "build_mask S W i = Inl e \<Longrightarrow> \<forall>j\<in>set js. \<exists>b. build_mask S W j = Inr b \<Longrightarrow>
   generate_masks_loop S W (js @ i # ks) acc = Inl e"
  by (induction js arbitrary: acc) auto

lemma band_any_value: "band msize v = Inr b \<Longrightarrow> \<exists>b'. band msize v' = Inr b'"
  by (auto simp: band_def np_ones_def split: if_splits)

lemma build_mask_Inr_iff:
  "build_mask S W i = Inr m \<longleftrightarrow>
     i < length S \<and> i < length W \<and> (\<exists>u. stacked_mask (S ! i) = Inr u \<and> m = np_mul u (W ! i))"
  by (auto simp: build_mask_def bind_err_Inr_iff getitem_def)

lemma generate_masks_total:
  assumes "length S \<le> length W" and "\<forall>s\<in>set S. 0 \<le> s"
  shows "\<exists>ms. generate_masks S W = Inr ms"
proof -
  have "\<forall>i<length S. \<exists>m. build_mask S W i = Inr m"
  proof (intro allI impI)
    fix i assume i: "i < length S"
    with assms(2) have "0 \<le> S ! i" by simp
    then obtain u where "stacked_mask (S ! i) = Inr u"
      using stacked_mask_total by blast
    with i assms(1) show "\<exists>m. build_mask S W i = Inr m"
      by (simp add: build_mask_Inr_iff)
  qed
  then obtain f where f: "\<forall>i<length S. build_mask S W i = Inr (f i)"
    by metis
  then have "generate_masks S W = Inr (map f [0 ..< length S])"
    by (simp add: generate_masks_Inr_iff)
  then show ?thesis ..
qed

lemma generate_masks_short_weights:
  assumes "length W < length S" and "\<forall>s\<in>set S. 0 \<le> s"
  shows "generate_masks S W = Inl IndexError"
proof -
  let ?n = "length W"
  have split: "[0 ..< length S] = [0 ..< ?n] @ ?n # [Suc ?n ..< length S]"
    using assms(1) by (metis less_imp_le_nat upt_add_eq_append upt_conv_Cons le0 le_add_diff_inverse)
  have "0 \<le> S ! ?n" using assms by simp
  then obtain u where "stacked_mask (S ! ?n) = Inr u"
    using stacked_mask_total by blast
  then have bad: "build_mask S W ?n = Inl IndexError"
    using assms(1) by (simp add: build_mask_def getitem_def)
  have good: "\<forall>j\<in>set [0 ..< ?n]. \<exists>b. build_mask S W j = Inr b"
  proof
    fix j assume "j \<in> set [0 ..< ?n]"
    then have j: "j < length W" "j < length S" using assms(1) by simp_all
    with assms(2) have "0 \<le> S ! j" by simp
    then obtain u where "stacked_mask (S ! j) = Inr u"
      using stacked_mask_total by blast
    with j show "\<exists>b. build_mask S W j = Inr b"
      by (simp add: build_mask_Inr_iff)
  qed
  show ?thesis
    unfolding generate_masks_def split
    by (rule generate_masks_loop_Inl [OF bad good])
qed

text \<open>
  C5 (as amended). Whenever \<^verbatim>\<open>generate_masks\<close> succeeds, each of the five bands built
  for a size has \<open>\<lfloor>size / 5\<rfloor>\<close> rows and \<open>\<lfloor>3 * size / 5\<rfloor>\<close> columns, and the
  mask stored for that size, the five bands stacked on top of each other, has
  \<open>5 * \<lfloor>size / 5\<rfloor>\<close> rows and \<open>\<lfloor>3 * size / 5\<rfloor>\<close> columns.
\<close>

theorem generate_masks_shape:
  assumes "generate_masks S W = Inr ms" and "i < length S"
  shows "shape (ms ! i) = (5 * nat \<lfloor>S ! i / 5\<rfloor>, nat \<lfloor>3 * (S ! i) / 5\<rfloor>)
         \<and> (\<exists>b. band (S ! i) v = Inr b
                \<and> shape b = (nat \<lfloor>S ! i / 5\<rfloor>, nat \<lfloor>3 * (S ! i) / 5\<rfloor>))"
proof -
  from assms obtain u where u: "stacked_mask (S ! i) = Inr u" "ms ! i = np_mul u (W ! i)"
    by (auto simp: generate_masks_Inr_iff build_mask_Inr_iff)
  from u(1) obtain b1 where "band (S ! i) (- 1) = Inr b1"
    by (auto simp: stacked_mask_def bind_err_Inr_iff)
  then obtain b where b: "band (S ! i) v = Inr b"
    using band_any_value by blast
  from u b show ?thesis
    by (simp add: stacked_mask_shape band_Inr)
qed

text \<open>
  The configured sizes and weights of \<^verbatim>\<open>__init__\<close>: the third mask, for the size
  \<open>1024 / 12\<close>, has 85 rows and 51 columns.
\<close>

theorem generate_masks_shape_witness:
  "\<exists>ms. generate_masks [256, 128, 256 / 3, 64] [1, 2, 3, 4, 5] = Inr ms
        \<and> shape (ms ! 2) = (85, 51)"
proof -
  obtain ms where ms: "generate_masks [256, 128, 256 / 3, 64] [1, 2, 3, 4, 5] = Inr ms"
    using generate_masks_total [of "[256, 128, 256 / 3, 64]" "[1, 2, 3, 4, 5]"] by auto
  have "shape (ms ! 2) = (85, 51)"
    using generate_masks_shape [OF ms, of 2] by simp
  with ms show ?thesis by blast
qed

text \<open>
  C5 as stated fails: for the size 256 the stored mask has 255 rows, not
  \<open>\<lfloor>256 / 5\<rfloor> = 51\<close>.
\<close>

theorem generate_masks_shape_counterexample:
  "\<exists>ms. generate_masks [256] [1] = Inr ms
        \<and> shape (ms ! 0) = (255, 153)
        \<and> (nat \<lfloor>256 / 5 :: real\<rfloor>, nat \<lfloor>3 * 256 / 5 :: real\<rfloor>) = (51, 153)"
proof -
  obtain ms where ms: "generate_masks [256] [1] = Inr ms"
    using generate_masks_total [of "[256]" "[1]"] by auto
  have "shape (ms ! 0) = (255, 153)"
    using generate_masks_Inr_iff [of "[256]" "[1]" ms] ms
    by (auto simp: build_mask_Inr_iff stacked_mask_shape)
  with ms show ?thesis by simp
qed

text \<open>
  C6 (as amended). For sizes that are not negative: when there are at least as many
  weights as sizes, \<^verbatim>\<open>generate_masks\<close> returns one mask per size, the mask of the
  \<open>i\<close>-th size being the stacked, normalised bands multiplied by the \<open>i\<close>-th weight, and
  the weights beyond the number of sizes play no part; when there are fewer weights
  than sizes, it raises \<^verbatim>\<open>IndexError\<close>.
\<close>

theorem generate_masks_weights:
  assumes "\<forall>s\<in>set S. 0 \<le> s"
  shows "if length S \<le> length W
         then generate_masks S (take (length S) W) = generate_masks S W
              \<and> (\<exists>ms. generate_masks S W = Inr ms \<and> length ms = length S
                    \<and> (\<forall>i<length S. \<exists>u. stacked_mask (S ! i) = Inr u
                                          \<and> ms ! i = np_mul u (W ! i)))
         else generate_masks S W = Inl IndexError"
proof (cases "length S \<le> length W")
  case True
  then obtain ms where ms: "generate_masks S W = Inr ms"
    using generate_masks_total assms by blast
  then have props: "length ms = length S"
      "\<forall>i<length S. \<exists>u. stacked_mask (S ! i) = Inr u \<and> ms ! i = np_mul u (W ! i)"
    by (simp_all add: generate_masks_Inr_iff build_mask_Inr_iff)
  from ms True have "generate_masks S (take (length S) W) = Inr ms"
    by (simp add: generate_masks_Inr_iff build_mask_Inr_iff)
  with ms props True show ?thesis by simp
next
  case False
  then show ?thesis
    using generate_masks_short_weights assms by simp
qed

text \<open>
  The configuration of the scenario: four sizes and five weights give four masks,
  scaled by the weights 1, 2, 3 and 4.
\<close>

theorem generate_masks_weights_witness:
  "\<exists>ms u0 u1 u2 u3. generate_masks [256, 128, 256 / 3, 64] [1, 2, 3, 4, 5] = Inr ms
     \<and> length ms = 4
     \<and> stacked_mask 256 = Inr u0 \<and> ms ! 0 = np_mul u0 1
     \<and> stacked_mask 128 = Inr u1 \<and> ms ! 1 = np_mul u1 2
     \<and> stacked_mask (256 / 3) = Inr u2 \<and> ms ! 2 = np_mul u2 3
     \<and> stacked_mask 64 = Inr u3 \<and> ms ! 3 = np_mul u3 4"
proof -
  have nonneg: "\<forall>s\<in>set [256, 128, 256 / 3, 64 :: real]. 0 \<le> s" by simp
  have le: "length [256, 128, 256 / 3, 64 :: real] \<le> length [1, 2, 3, 4, 5 :: real]" by simp
  have "\<exists>ms. generate_masks [256, 128, 256 / 3, 64] [1, 2, 3, 4, 5] = Inr ms
      \<and> length ms = length [256, 128, 256 / 3, 64 :: real]
      \<and> (\<forall>i<length [256, 128, 256 / 3, 64 :: real].
            \<exists>u. stacked_mask ([256, 128, 256 / 3, 64] ! i) = Inr u
                  \<and> ms ! i = np_mul u ([1, 2, 3, 4, 5] ! i))"
    using generate_masks_weights [OF nonneg, of "[1, 2, 3, 4, 5]"] le
    by (simp only: if_True)
  then obtain ms where ms: "generate_masks [256, 128, 256 / 3, 64] [1, 2, 3, 4, 5] = Inr ms"
      "length ms = 4"
      "\<forall>i<4. \<exists>u. stacked_mask ([256, 128, 256 / 3, 64] ! i) = Inr u
                  \<and> ms ! i = np_mul u ([1, 2, 3, 4, 5] ! i)"
    by auto
  have "\<exists>u. stacked_mask 256 = Inr u \<and> ms ! 0 = np_mul u 1"
    using ms(3) [rule_format, of 0] by simp
  moreover have "\<exists>u. stacked_mask 128 = Inr u \<and> ms ! 1 = np_mul u 2"
    using ms(3) [rule_format, of 1] by simp
  moreover have "\<exists>u. stacked_mask (256 / 3) = Inr u \<and> ms ! 2 = np_mul u 3"
    using ms(3) [rule_format, of 2] by simp
  moreover have "\<exists>u. stacked_mask 64 = Inr u \<and> ms ! 3 = np_mul u 4"
    using ms(3) [rule_format, of 3] by simp
  ultimately obtain u0 u1 u2 u3 where
    "stacked_mask 256 = Inr u0 \<and> ms ! 0 = np_mul u0 1"
    "stacked_mask 128 = Inr u1 \<and> ms ! 1 = np_mul u1 2"
    "stacked_mask (256 / 3) = Inr u2 \<and> ms ! 2 = np_mul u2 3"
    "stacked_mask 64 = Inr u3 \<and> ms ! 3 = np_mul u3 4"
    by auto
  with ms(1,2) show ?thesis by blast
qed

text \<open>
  C6 as stated fails: two sizes and one weight do not give one mask, the call raises
  \<^verbatim>\<open>IndexError\<close>.
\<close>

theorem generate_masks_weights_counterexample:
  "generate_masks [256, 128] [1] = Inl IndexError"
  using generate_masks_short_weights [of "[1]" "[256, 128]"] by simp

subsection \<open>The angle list across calls\<close>

text \<open>
  C2 fails on the code. On the object that \<^verbatim>\<open>__init__\<close> builds (mode
  \<^verbatim>\<open>ALL_ROTATIONS\<close>, 36 angles) a call of \<^verbatim>\<open>get_grasp\<close> that reaches line 93 appends
  the major component angle to \<^verbatim>\<open>self.angles\<close>: the list after the call differs from
  the list before it, and it has 38 entries after two calls.
\<close>

theorem get_grasp_appends_angle:
  "\<exists>self. GraspMask_init = Inr self
     \<and> grasp_mode self = ALL_ROTATIONS
     \<and> length (angles self) = 36
     \<and> angles (get_grasp_self self m) = angles self @ [m]
     \<and> angles (get_grasp_self self m) \<noteq> angles self
     \<and> length (angles (get_grasp_self (get_grasp_self self m) m')) = 38"
proof -
  have "\<forall>s\<in>set init_mask_sizes. 0 \<le> s"
    by (simp add: init_mask_sizes_def arange_def upt_conv_Cons)
  moreover have "length init_mask_sizes \<le> length init_weights"
    by (simp add: init_mask_sizes_def init_weights_def arange_def)
  ultimately obtain ms where "generate_masks init_mask_sizes init_weights = Inr ms"
    using generate_masks_total by blast
  then show ?thesis
    by (simp add: GraspMask_init_def get_grasp_self_def update_angles_def init_angles_def arange_def)
qed

subsection \<open>Rotation round trip\<close>

lemma rotate_roundtrip_exact:
  "affine_apply (getRotationMatrix2D c (- theta) 1) (affine_apply (getRotationMatrix2D c theta 1) p) = p"
proof -
  define a where "a = cos (theta * pi / 180)"
  define b where "b = sin (theta * pi / 180)"
  have ab: "a * a + b * b = 1"
    unfolding a_def b_def using sin_cos_squared_add2 [of "theta * pi / 180"]
    by (simp add: power2_eq_square)
  obtain cx cy where c: "c = (cx, cy)" by (cases c)
  obtain x y where p: "p = (x, y)" by (cases p)
  have x: "a * (a * x + b * y + ((1 - a) * cx - b * cy)) + (- b) * (- b * x + a * y + (b * cx + (1 - a) * cy)) + ((1 - a) * cx - (- b) * cy)
      = (a * a + b * b) * x + (1 - (a * a + b * b)) * cx"
    by (simp add: algebra_simps)
  have y: "b * (a * x + b * y + ((1 - a) * cx - b * cy)) + a * (- b * x + a * y + (b * cx + (1 - a) * cy)) + ((- b) * cx + (1 - a) * cy)
      = (a * a + b * b) * y + (1 - (a * a + b * b)) * cy"
    by (simp add: algebra_simps)
  show ?thesis
    using x y
    by (simp add: affine_apply_def getRotationMatrix2D_def Let_def c p a_def [symmetric] b_def [symmetric] ab)
qed

text \<open>
  C7. For every angle, centre and point, the rotation matrix for the angle followed by
  the rotation matrix for the negated angle about the same centre (the forward and
  inverse transforms of lines 104 and 105, the second being the one applied to the
  best pixel at line 143) gives the point back: each coordinate is within \<open>10\<^sup>-\<^sup>6\<close> of
  the original, and over the reals it is equal to it.
\<close>

theorem rotate_roundtrip:
  "\<bar>fst (affine_apply (getRotationMatrix2D c (- theta) 1)
            (affine_apply (getRotationMatrix2D c theta 1) p)) - fst p\<bar> \<le> 1 / 10 ^ 6
   \<and> \<bar>snd (affine_apply (getRotationMatrix2D c (- theta) 1)
            (affine_apply (getRotationMatrix2D c theta 1) p)) - snd p\<bar> \<le> 1 / 10 ^ 6"
  by (simp add: rotate_roundtrip_exact)

subsection \<open>Depth normalisation\<close>

text \<open>
  The double nearest to \<open>1.1\<close> is \<open>2476979795053773 / 2251799813685248\<close>. Its product with 255
  rounds to \<open>280.5\<close>, and \<open>280.5\<close> divided by it rounds to the double just below 255.
\<close>

lemma fl_double_1_1:
  "fl (2476979795053773 / 2251799813685248) = Finite (2476979795053773 / 2251799813685248)"
  using fl_near [of 0 "2476979795053773 / 2251799813685248" 4953959590107546] by simp

lemma fl_times_255: "fl (2476979795053773 / 2251799813685248 * 255) = Finite (561 / 2)"
  using fl_near [of 8 "2476979795053773 / 2251799813685248 * 255" 4934608185458688] by simp

lemma fl_back_to_255:
  "fl (561 / 2 / (2476979795053773 / 2251799813685248))
     = Finite (8972014882652159 / 35184372088832)"
  using fl_near [of 7 "561 / 2 / (2476979795053773 / 2251799813685248)" 8972014882652159]
  by simp

lemma np_uint8_0: "np_uint8 (Finite 0) = Some 0"
  by (simp add: np_uint8_def py_int_def)

lemma np_uint8_below_255: "np_uint8 (Finite (8972014882652159 / 35184372088832)) = Some 254"
  by (simp add: np_uint8_def py_int_def)

text \<open>
  C8 fails on the code. On the \<^verbatim>\<open>float64\<close> frame with the two samples \<open>0.0\<close> and
  \<open>1.1\<close>, line 68 computes \<open>254.99999999999997\<close> for the greater sample and line 69
  truncates it: the greatest value of the normalised image is 254, not 255.
\<close>

theorem normalize_depth_max_254:
  "normalize_depth (Float64Frame [[0, 2476979795053773 / 2251799813685248]])
     = Inr [[Some 0, Some 254]]"
proof -
  define x :: real where "x = 2476979795053773 / 2251799813685248"
  have pos: "0 < x" by (simp add: x_def)
  have lo: "Min {0, x} = 0" and hi: "Max {0, x} = x"
    using pos by simp_all
  have fx: "fl x = Finite x"
    unfolding x_def by (rule fl_double_1_1)
  have fp: "fl (x * 255) = Finite (561 / 2)"
    unfolding x_def by (rule fl_times_255)
  have fq: "fl (561 / 2 / x) = Finite (8972014882652159 / 35184372088832)"
    unfolding x_def by (rule fl_back_to_255)
  have nz: "x \<noteq> 0" using pos by simp
  have s0: "fsub (Finite 0) (Finite 0) = Finite 0"
    by (simp add: fsub_def fl_0)
  have s1: "fsub (Finite x) (Finite 0) = Finite x"
    by (simp add: fsub_def fx)
  have m0: "fmul (Finite 0) (Finite 255) = Finite 0"
    by (simp add: fl_0)
  have m1: "fmul (Finite x) (Finite 255) = Finite (561 / 2)"
    by (simp only: fmul.simps fp)
  have d0: "fdiv (Finite 0) (Finite x) = Finite 0"
    using nz by (simp add: fl_0)
  have d1: "fdiv (Finite (561 / 2)) (Finite x) = Finite (8972014882652159 / 35184372088832)"
    using nz by (simp only: fdiv.simps if_False fq)
  have "normalize_depth (Float64Frame [[0, x]])
        = Inr [[np_uint8 (fdiv (fmul (fsub (Finite 0) (Finite 0)) (Finite 255))
                               (fsub (Finite x) (Finite 0))),
                np_uint8 (fdiv (fmul (fsub (Finite x) (Finite 0)) (Finite 255))
                               (fsub (Finite x) (Finite 0)))]]"
    by (simp add: normalize_depth_def normalize_float64_def np_min_def np_max_def lo hi)
  then have "normalize_depth (Float64Frame [[0, x]]) = Inr [[Some 0, Some 254]]"
    by (simp only: s0 s1 m0 m1 d0 d1 np_uint8_0 np_uint8_below_255)
  then show ?thesis by (simp only: x_def)
qed

text \<open>
  On a \<^verbatim>\<open>uint16\<close> frame with the samples 0 and 1000 the product \<open>1000 * 255\<close> wraps
  around to 58392, and the greatest value of the normalised image is 58.
\<close>

lemma fl_wrapped_quotient: "fl (58392 / 1000) = Finite (8217943420044313 / 140737488355328)"
  using fl_near [of 5 "58392 / 1000" 8217943420044313] by simp

lemma np_uint8_58: "np_uint8 (Finite (8217943420044313 / 140737488355328)) = Some 58"
  by (simp add: np_uint8_def py_int_def)

lemma normalize_depth_uint16_wraps:
  "normalize_depth (UInt16Frame [[0, 1000]]) = Inr [[Some 0, Some 58]]"
proof -
  have lo: "Min {0, 1000 :: 16 word} = 0" and hi: "Max {0, 1000 :: 16 word} = 1000"
    by simp_all
  have wrap: "unat ((1000 :: 16 word) * 255) = 58392" by simp
  have q: "fdiv (Finite 58392) (Finite 1000) = Finite (8217943420044313 / 140737488355328)"
    using fl_wrapped_quotient by simp
  have z: "fdiv (Finite 0) (Finite 1000) = Finite 0"
    by (simp add: fl_0)
  have "normalize_depth (UInt16Frame [[0, 1000]])
        = Inr [[np_uint8 (fdiv (Finite 0) (Finite 1000)),
                np_uint8 (fdiv (Finite 58392) (Finite 1000))]]"
    by (simp add: normalize_depth_def normalize_uint16_def np_min_def np_max_def lo hi wrap)
  then show ?thesis
    by (simp only: q z np_uint8_0 np_uint8_58)
qed

subsection \<open>Ranking\<close>

lemma sorted_py_reverse_keys: "sorted (rev (map key (sorted_py_reverse key xs)))"
  by (simp add: sorted_py_reverse_def rev_map [symmetric])

lemma sorted_py_reverse_stable:
  "filter (\<lambda>y. key y = k) (sorted_py_reverse key xs) = filter (\<lambda>y. key y = k) xs"
proof -
  have "filter (\<lambda>y. key y = k) (sorted_py_reverse key xs)
        = rev (filter (\<lambda>y. key y = k) (sort_key key (rev xs)))"
    by (simp add: sorted_py_reverse_def rev_filter)
  also have "\<dots> = rev (filter (\<lambda>y. key y = k) (rev xs))"
    by (simp only: sort_key_stable)
  also have "\<dots> = filter (\<lambda>y. key y = k) xs"
    by (simp add: rev_filter)
  finally show ?thesis .
qed

lemma sorted_py_reverse_mset: "mset (sorted_py_reverse key xs) = mset xs"
  by (simp add: sorted_py_reverse_def)

text \<open>
  C9. The ranked list is a rearrangement of the candidates, its scores read from the
  first entry to the last never increase, and for each score value the candidates with
  that score appear in the ranked list in the order in which they were generated.
\<close>

theorem rank_grasps_sorted_stable:
  "mset (rank_grasps cs) = mset cs
   \<and> sorted (rev (map score (rank_grasps cs)))
   \<and> filter (\<lambda>c. score c = k) (rank_grasps cs) = filter (\<lambda>c. score c = k) cs"
  unfolding rank_grasps_def
  by (simp add: sorted_py_reverse_mset sorted_py_reverse_keys sorted_py_reverse_stable)

subsection \<open>A lower bound for \<open>pi\<close>\<close>

text \<open>
  The source converts radians to degrees with the factor \<^verbatim>\<open>180/3.14\<close>. That \<open>3.14\<close> is
  below \<open>pi\<close> follows from the Taylor polynomial of the sine at \<open>0.785\<close>, which stays
  below \<open>sin (pi / 4)\<close>.
\<close>

lemma sin_poly7:
  fixes x :: real
  shows "(\<Sum>m<7. sin_coeff m * x ^ m) = x - x ^ 3 / 6 + x ^ 5 / 120"
proof -
  have "(\<Sum>m<7. sin_coeff m * x ^ m)
        = (\<Sum>m<Suc (Suc (Suc (Suc (Suc (Suc (Suc 0)))))). sin_coeff m * x ^ m)"
    by (simp add: eval_nat_numeral)
  also have "\<dots> = x - x * x * x / 6 + x * x * x * x * x / 120"
    by (simp add: sin_coeff_Suc cos_coeff_Suc)
  also have "\<dots> = x - x ^ 3 / 6 + x ^ 5 / 120"
    by (simp add: eval_nat_numeral)
  finally show ?thesis .
qed

lemma sin_785_bound: "sin (157 / 200 :: real) \<le> 707 / 1000"
proof -
  have "\<bar>sin (157 / 200 :: real) - (\<Sum>m<7. sin_coeff m * (157 / 200) ^ m)\<bar>
        \<le> inverse (fact 7) * \<bar>157 / 200 :: real\<bar> ^ 7"
    by (rule Maclaurin_sin_bound)
  then have "\<bar>sin (157 / 200 :: real) - (157 / 200 - (157 / 200) ^ 3 / 6 + (157 / 200) ^ 5 / 120)\<bar>
        \<le> (157 / 200) ^ 7 / 5040"
    by (simp only: sin_poly7) (simp add: fact_numeral)
  then have "sin (157 / 200 :: real)
        \<le> (157 / 200 - (157 / 200) ^ 3 / 6 + (157 / 200) ^ 5 / 120) + (157 / 200) ^ 7 / 5040"
    by linarith
  also have "\<dots> \<le> 707 / 1000"
    by (simp add: power_divide)
  finally show ?thesis .
qed

lemma pi_gt_314: "3.14 < pi"
proof -
  have "(707 / 1000 :: real) < sqrt 2 / 2"
  proof -
    have "(707 / 500 :: real)\<^sup>2 < 2" by (simp add: power2_eq_square)
    then have "(707 / 500 :: real) < sqrt 2" by (rule real_less_rsqrt)
    then show ?thesis by simp
  qed
  with sin_785_bound have "sin (157 / 200 :: real) < sin (pi / 4)"
    by (simp add: sin_45)
  moreover have "- (pi / 2) \<le> (157 / 200 :: real)" "(157 / 200 :: real) \<le> pi / 2"
    using pi_ge_two by simp_all
  moreover have "- (pi / 2) \<le> pi / 4" "pi / 4 \<le> pi / 2"
    using pi_ge_two by simp_all
  ultimately have "(157 / 200 :: real) < pi / 4"
    by (simp add: sin_mono_less_eq)
  then show ?thesis by simp
qed

subsection \<open>The pair filter\<close>

lemma norm2_horizontal: "norm2 (a, 0) = \<bar>a\<bar>"
  by (simp add: norm2_def)

lemma grasp_of_in_range:
  assumes "in_range xt yt ns c"
  shows "grasp_of xt yt ns c
         = Inr (if accepted xt yt ns c then Some (c, pair_cost xt yt c) else None)"
proof -
  obtain i j where c: "c = (i, j)" by (cases c)
  with assms have r: "i < length ns" "j < length ns" "i < length xt" "i < length yt"
      "j < length xt" "j < length yt"
    by (simp_all add: in_range_def)
  show ?thesis
    using r by (simp add: c grasp_of_def getitem_def accepted_def pair_cost_def pair_distance_def Let_def)
qed

lemma collect_grasps_in_range:
  "\<forall>c\<in>set cs. in_range xt yt ns c \<Longrightarrow>
   collect_grasps xt yt ns cs acc
     = Inr (acc @ map (\<lambda>c. (c, pair_cost xt yt c)) (filter (accepted xt yt ns) cs))"
  by (induction cs arbitrary: acc) (simp_all add: grasp_of_in_range)


text \<open>
  What the filter guarantees about the pair it selects, in terms of its own two tests:
  the pair is one of the combinations, it passes both tests, and no combination that
  passes both tests has a smaller cost.
\<close>

lemma best_grasp_accepted_min:
  assumes rng: "\<forall>c\<in>set cs. in_range xt yt ns c"
    and res: "best_grasp xt yt ns cs = Inr g"
  shows "fst g \<in> set cs \<and> accepted xt yt ns (fst g) \<and> snd g = pair_cost xt yt (fst g)
         \<and> (\<forall>c\<in>set cs. accepted xt yt ns c \<longrightarrow> snd g \<le> pair_cost xt yt c)"
proof -
  let ?L = "map (\<lambda>c. (c, pair_cost xt yt c)) (filter (accepted xt yt ns) cs)"
  from rng res have g0: "getitem (sort_key snd ?L) 0 = Inr g"
    by (simp add: best_grasp_def collect_grasps_in_range sorted_py_def)
  then obtain rest where srt: "sort_key snd ?L = g # rest"
    by (cases "sort_key snd ?L") (simp_all add: getitem_def)
  have "g \<in> set (sort_key snd ?L)" using srt by simp
  then have gin: "g \<in> set ?L" by simp
  have "sorted (map snd (sort_key snd ?L))" by simp
  then have le: "\<forall>y\<in>set (g # rest). snd g \<le> snd y"
    unfolding srt by auto
  have "snd g \<le> pair_cost xt yt c" if "c \<in> set cs" "accepted xt yt ns c" for c
  proof -
    from that have "(c, pair_cost xt yt c) \<in> set ?L" by simp
    then have "(c, pair_cost xt yt c) \<in> set (g # rest)"
      using srt by (metis set_sort)
    with le show ?thesis by fastforce
  qed
  with gin show ?thesis by auto
qed







text \<open>
  Two points \<open>0.01\<close> apart whose unit normals enclose exactly 120 degrees. Every
  operation of line 220 is exact on them: the quotient is \<open>-1/2\<close>, and the source
  computes \<open>120 * pi / 3.14\<close> for the angle, which is above 120.
\<close>

lemma norm2_unit_120: "norm2 (- (1 / 2), sqrt 3 / 2) = 1"
  by (simp add: norm2_def power_divide)

lemma arccos_arg_120: "arccos_arg (1, 0) (- (1 / 2), sqrt 3 / 2) = Finite (- (1 / 2))"
  by (simp add: arccos_arg_def dot_f64_def norm_f64_def fl_0 fl_1 fl_minus_half fl_quarter
      fl_three_quarters)

lemma angle_120: "angle (1, 0) (- (1 / 2), sqrt 3 / 2) = Some (120 * pi / 3.14)"
  by (simp add: angle_def np_arccos_def arccos_arg_120)

lemma angle_degrees_120: "angle_degrees (1, 0) (- (1 / 2), sqrt 3 / 2) = 120"
  using norm2_unit_120 by (simp add: angle_degrees_def dot_def norm2_horizontal)

lemma angle_120_gt: "exceeds (angle (1, 0) (- (1 / 2), sqrt 3 / 2)) 120"
  using pi_gt_314 by (simp add: angle_120 exceeds_def)

lemma grasp_of_120:
  "grasp_of [0, 1 / 100] [0, 0] [(1, 0), (- (1 / 2), sqrt 3 / 2)] (0, Suc 0)
     = Inr (Some ((0, Suc 0), 1 / 50))"
  using angle_120_gt
  by (simp add: grasp_of_def getitem_def np_mean_def norm2_horizontal Let_def)

text \<open>
  C1 fails on the code. The filter returns the pair of the two points although the
  angle between their outward normals is exactly 120 degrees, not more.
\<close>

theorem get_grasp_pair_at_120_degrees:
  "get_grasp_pair [0, 1 / 100] [0, 0] [(1, 0), (- (1 / 2), sqrt 3 / 2)] (combinations2 [0, 1])
     = Inr ((0, 0), (1 / 100, 0))
   \<and> angle_degrees (1, 0) (- (1 / 2), sqrt 3 / 2) = 120"
  by (simp add: get_grasp_pair_def best_grasp_def grasp_of_120 sorted_py_def getitem_def
      angle_degrees_120)


subsection \<open>The pair filter on normals that are doubles\<close>

text \<open>
  The same divergence with normals whose components are doubles, \<open>(1, 0)\<close> and
  \<open>(-0.5, 0.8671875)\<close>. Here the norm and the quotient are rounded. The angle the
  source computes is above 120 because the quotient is below the cosine of
  \<open>120 * 3.14 / 180\<close>, which is bounded through the Taylor polynomial of the sine.
\<close>

lemma sin_poly9:
  fixes x :: real
  shows "(\<Sum>m<9. sin_coeff m * x ^ m) = x - x ^ 3 / 6 + x ^ 5 / 120 - x ^ 7 / 5040"
proof -
  have "(\<Sum>m<9. sin_coeff m * x ^ m)
        = (\<Sum>m<Suc (Suc (Suc (Suc (Suc (Suc (Suc (Suc (Suc 0)))))))). sin_coeff m * x ^ m)"
    by (simp add: eval_nat_numeral)
  also have "\<dots> = x - x * x * x / 6 + x * x * x * x * x / 120 - x * x * x * x * x * x * x / 5040"
    by (simp add: sin_coeff_Suc cos_coeff_Suc)
  also have "\<dots> = x - x ^ 3 / 6 + x ^ 5 / 120 - x ^ 7 / 5040"
    by (simp add: eval_nat_numeral)
  finally show ?thesis .
qed

lemma sin_bound_157_150: "sin (157 / 150 :: real) \<le> 86577 / 100000"
proof -
  have "\<bar>sin (157 / 150 :: real) - (\<Sum>m<9. sin_coeff m * (157 / 150) ^ m)\<bar>
        \<le> inverse (fact 9) * \<bar>157 / 150 :: real\<bar> ^ 9"
    by (rule Maclaurin_sin_bound)
  then have "\<bar>sin (157 / 150 :: real)
          - (157 / 150 - (157 / 150) ^ 3 / 6 + (157 / 150) ^ 5 / 120 - (157 / 150) ^ 7 / 5040)\<bar>
        \<le> (157 / 150) ^ 9 / 362880"
    by (simp only: sin_poly9) (simp add: fact_numeral)
  then have "sin (157 / 150 :: real)
        \<le> (157 / 150 - (157 / 150) ^ 3 / 6 + (157 / 150) ^ 5 / 120 - (157 / 150) ^ 7 / 5040)
          + (157 / 150) ^ 9 / 362880"
    by linarith
  also have "\<dots> \<le> 86577 / 100000"
    by (simp add: power_divide)
  finally show ?thesis .
qed

lemma cos_bound_157_75: "- (4992 / 10000) < cos (157 / 75 :: real)"
proof -
  define t :: real where "t = (sin (157 / 150))\<^sup>2"
  have "0 \<le> sin (157 / 150 :: real)"
    using pi_gt_314 by (intro sin_ge_zero) simp_all
  with sin_bound_157_150 have "(sin (157 / 150 :: real))\<^sup>2 \<le> (86577 / 100000)\<^sup>2"
    by (intro power_mono) simp_all
  then have t: "t \<le> 7495576929 / 10000000000"
    by (simp add: t_def power2_eq_square)
  have "cos (157 / 75 :: real) = 1 - 2 * t"
    using cos_double_sin [of "157 / 150 :: real"] by (simp add: t_def)
  with t show ?thesis by linarith
qed

lemma arccos_above_threshold:
  assumes "- 1 \<le> q" "q \<le> - (4992 / 10000)"
  shows "120 < arccos q * 180 / 3.14"
proof -
  have r: "0 \<le> (157 / 75 :: real)" "(157 / 75 :: real) \<le> pi"
    using pi_gt_314 by simp_all
  have "q < cos (157 / 75)" using assms(2) cos_bound_157_75 by linarith
  moreover have "cos (157 / 75 :: real) \<le> 1" by simp
  ultimately have "arccos (cos (157 / 75)) < arccos q"
    using assms(1) by (intro arccos_less_arccos) simp_all
  then have "157 / 75 < arccos q"
    using r by (simp add: arccos_cos)
  then show ?thesis by simp
qed

lemma fl_12321: "fl (12321 / 16384) = Finite (12321 / 16384)"
  using fl_near [of "- 1" "12321 / 16384" 6773541382914048] by simp

lemma fl_16417: "fl (16417 / 16384) = Finite (16417 / 16384)"
  using fl_near [of 0 "16417 / 16384" 4512670598299648] by simp

lemma fl_sqrt_16417:
  "fl (sqrt (16417 / 16384)) = Finite (4508132831333621 / 4503599627370496)"
proof -
  have lo: "(9016265662667241 / 9007199254740992 :: real) < sqrt (16417 / 16384)"
    by (rule real_less_rsqrt) (simp add: power2_eq_square)
  have hi: "sqrt (16417 / 16384) < (9016265662667243 / 9007199254740992 :: real)"
    by (rule real_less_lsqrt) (simp_all add: power2_eq_square)
  show ?thesis
    using fl_near [of 0 "sqrt (16417 / 16384)" 4508132831333621] lo hi by simp
qed

lemma fl_norm_16417:
  "fl (4508132831333621 / 4503599627370496) = Finite (4508132831333621 / 4503599627370496)"
  using fl_near [of 0 "4508132831333621 / 4503599627370496" 4508132831333621] by simp

lemma fl_quotient_16417:
  "fl (- (1 / 2) / (4508132831333621 / 4503599627370496))
     = Finite (- (8998141963643789 / 18014398509481984))"
  using fl_near [of "- 2" "- (1 / 2) / (4508132831333621 / 4503599627370496)"
      "- 8998141963643789"] by simp

lemma norm_f64_repr: "norm_f64 (- (1 / 2), 111 / 128) = Finite (4508132831333621 / 4503599627370496)"
proof -
  have a: "fmul (Finite (- (1 / 2))) (Finite (- (1 / 2))) = Finite (1 / 4)"
    using fl_quarter by simp
  have b: "fmul (Finite (111 / 128)) (Finite (111 / 128)) = Finite (12321 / 16384)"
    using fl_12321 by simp
  have c: "fadd (Finite (1 / 4)) (Finite (12321 / 16384)) = Finite (16417 / 16384)"
    using fl_16417 by simp
  have d: "fsqrt (Finite (16417 / 16384)) = Finite (4508132831333621 / 4503599627370496)"
    using fl_sqrt_16417 by simp
  show ?thesis
    by (simp only: norm_f64_def dot_f64_def fst_conv snd_conv a b c d)
qed

lemma arccos_arg_repr:
  "arccos_arg (1, 0) (- (1 / 2), 111 / 128) = Finite (- (8998141963643789 / 18014398509481984))"
proof -
  have d: "dot_f64 (1, 0) (- (1 / 2), 111 / 128) = Finite (- (1 / 2))"
    by (simp add: dot_f64_def fl_0 fl_minus_half)
  have n1: "norm_f64 (1, 0) = Finite 1"
    by (simp add: norm_f64_def dot_f64_def fl_0 fl_1)
  have p: "fmul (Finite 1) (Finite (4508132831333621 / 4503599627370496))
           = Finite (4508132831333621 / 4503599627370496)"
    using fl_norm_16417 by simp
  have q: "fdiv (Finite (- (1 / 2))) (Finite (4508132831333621 / 4503599627370496))
           = Finite (- (8998141963643789 / 18014398509481984))"
    using fl_quotient_16417 by simp
  show ?thesis
    by (simp only: arccos_arg_def d n1 norm_f64_repr p q)
qed

lemma exceeds_repr: "exceeds (angle (1, 0) (- (1 / 2), 111 / 128)) 120"
proof -
  have "120 < arccos (- (8998141963643789 / 18014398509481984)) * 180 / 3.14"
    by (rule arccos_above_threshold) simp_all
  then show ?thesis
    by (simp add: exceeds_def angle_def np_arccos_def arccos_arg_repr)
qed

lemma angle_degrees_repr: "angle_degrees (1, 0) (- (1 / 2), 111 / 128) < 120"
proof -
  have n: "norm2 (- (1 / 2), 111 / 128) = sqrt (16417 / 16384)"
    by (simp add: norm2_def power2_eq_square)
  have "1 < sqrt (16417 / 16384 :: real)" by simp
  then have gt: "- (1 / 2) < - (1 / 2) / sqrt (16417 / 16384 :: real)"
    by (simp add: field_simps)
  have "- (1 / 2) / sqrt (16417 / 16384 :: real) \<le> 0"
    by (intro divide_nonpos_pos) simp_all
  then have lt: "- (1 / 2) / sqrt (16417 / 16384 :: real) \<le> 1"
    by linarith
  have "arccos (- (1 / 2) / sqrt (16417 / 16384)) < arccos (- (1 / 2))"
    using gt lt by (intro arccos_less_arccos) simp_all
  then have "arccos (- (1 / 2) / sqrt (16417 / 16384)) < 2 * pi / 3"
    by simp
  then have "arccos (- (1 / 2) / sqrt (16417 / 16384)) * 180 / pi < 120"
    by (simp add: field_simps)
  then show ?thesis
    by (simp add: angle_degrees_def dot_def norm2_horizontal n)
qed

text \<open>
  The filter returns the pair although the angle between the two normals is below 120
  degrees (about 119.97): the source computes about 120.03 for it.
\<close>

lemma grasp_of_repr:
  "grasp_of [0, 1 / 100] [0, 0] [(1, 0), (- (1 / 2), 111 / 128)] (0, Suc 0)
     = Inr (Some ((0, Suc 0), 1 / 50))"
  using exceeds_repr
  by (simp add: grasp_of_def getitem_def np_mean_def norm2_horizontal Let_def)

lemma get_grasp_pair_below_120_degrees:
  "get_grasp_pair [0, 1 / 100] [0, 0] [(1, 0), (- (1 / 2), 111 / 128)] (combinations2 [0, 1])
     = Inr ((0, 0), (1 / 100, 0))
   \<and> angle_degrees (1, 0) (- (1 / 2), 111 / 128) < 120"
  by (simp add: get_grasp_pair_def best_grasp_def grasp_of_repr sorted_py_def getitem_def
      angle_degrees_repr)

subsection \<open>The argument of the inverse cosine\<close>

text \<open>
  On the reals the quotient of line 220 is between \<open>-1\<close> and \<open>1\<close> by the
  Cauchy-Schwarz inequality. The quotient the source computes is rounded three times
  on the way, and nothing brings it back into that interval.
\<close>

lemma dot_le_norms: "\<bar>dot u v\<bar> \<le> norm2 u * norm2 v"
proof -
  obtain a b where u: "u = (a, b)" by (cases u)
  obtain c d where v: "v = (c, d)" by (cases v)
  have "(a * c + b * d)\<^sup>2 + (a * d - b * c)\<^sup>2 = (a\<^sup>2 + b\<^sup>2) * (c\<^sup>2 + d\<^sup>2)"
    by (simp add: power2_eq_square algebra_simps)
  then have "(a * c + b * d)\<^sup>2 \<le> (a\<^sup>2 + b\<^sup>2) * (c\<^sup>2 + d\<^sup>2)"
    by (metis le_add_same_cancel1 zero_le_power2)
  then have "sqrt ((a * c + b * d)\<^sup>2) \<le> sqrt ((a\<^sup>2 + b\<^sup>2) * (c\<^sup>2 + d\<^sup>2))"
    by (rule real_sqrt_le_mono)
  then show ?thesis
    by (simp add: u v dot_def norm2_def real_sqrt_mult)
qed

lemma arccos_argument_in_domain:
  "- 1 \<le> dot u v / (norm2 u * norm2 v) \<and> dot u v / (norm2 u * norm2 v) \<le> 1"
proof -
  have nn: "0 \<le> norm2 u * norm2 v" by (simp add: norm2_def)
  have "\<bar>dot u v / (norm2 u * norm2 v)\<bar> \<le> 1"
  proof (cases "norm2 u * norm2 v = 0")
    case True
    then have "dot u v / (norm2 u * norm2 v) = 0" by (simp only: div_by_0)
    then show ?thesis by (simp only: abs_zero zero_le_one)
  next
    case False
    with nn have pos: "0 < norm2 u * norm2 v" by (simp only: less_le) simp
    have "\<bar>dot u v / (norm2 u * norm2 v)\<bar> = \<bar>dot u v\<bar> / (norm2 u * norm2 v)"
      using pos by (simp only: abs_div_pos)
    also have "\<dots> \<le> 1"
      using pos dot_le_norms [of u v] by (simp only: divide_le_eq_1_pos)
    finally show ?thesis .
  qed
  then show ?thesis by linarith
qed


















subsection \<open>Preparing the contour\<close>

lemma point_dist_horizontal: "point_dist (a, y) (b, y) = \<bar>b - a\<bar>"
  by (simp add: point_dist_def)

lemma subarrays_gap:
  "subarrays [(0, 0), (1 / 100, 0), (1, 0), (101 / 100, 0)]
     = [[(0, 0), (1 / 100, 0)], [(1 / 100, 0), (1, 0), (101 / 100, 0)]]"
  by (simp add: subarrays_def np_where_gt_def consecutive_distances_def point_dist_horizontal
      py_slice_def upt_conv_Cons Let_def)

lemma fitted_contour_no_gap:
  "np_where_gt (consecutive_distances c) 0.03 = [] \<Longrightarrow> fitted_contour c = int_contour c"
  by (simp add: fitted_contour_def outer_contour_def subarrays_def py_max_def)

text \<open>
  C10 fails on the code. For four points on a line with one gap of \<open>0.99\<close> between the
  second and the third, the slices of line 204 are the first two points and the last
  three: the second slice starts at the point before the gap. It is the longest, so
  the sequence that is fitted runs across the gap, while cutting at the gap gives two
  pieces of two points each.
\<close>

theorem fitted_contour_keeps_gap:
  "outer_contour [(0, 0), (1 / 100, 0), (1, 0), (101 / 100, 0)]
     = Inr [(1 / 100, 0), (1, 0), (101 / 100, 0)]
   \<and> fitted_contour [(0, 0), (1 / 100, 0), (1, 0), (101 / 100, 0)]
     = Inr [(1 / 100, 0), (101 / 200, 0), (1, 0), (201 / 200, 0), (101 / 100, 0)]
   \<and> split_at_gaps [(0, 0), (1 / 100, 0), (1, 0), (101 / 100, 0)]
     = [[(0, 0), (1 / 100, 0)], [(1, 0), (101 / 100, 0)]]
   \<and> point_dist (1 / 100, 0) (1, 0) = 99 / 100"
  by (simp add: fitted_contour_def outer_contour_def subarrays_gap py_max_def int_contour_def
      mid_def point_dist_horizontal)

end
